theory Spec2Isabelle
  imports Main
begin

section \<open>Data model of \<open>components/needs_team/needs_team.tsx\<close>\<close>

text \<open>
  The component \<open>NeedsTeam\<close> keeps the "current team" in step with the route. Its methods
  are embedded as functions on an explicit \<open>world\<close>: the component's \<open>this.state\<close>, the
  instance field \<open>blurTime\<close>, the module variables \<open>wakeUpInterval\<close> and \<open>lastTime\<close>,
  the flag \<open>window.isActive\<close>, and the ordered trace of calls made to collaborators
  (redux actions, the router's history, timers, listeners). \<open>Date.now()\<close> is an argument.
\<close>

record Team =
  team_id :: string
  team_name :: string
  delete_at :: int
  group_constrained :: bool

record UserProfile =
  user_id :: string
  roles :: string

text \<open>An error object in an action's result; an object is always truthy in JavaScript.\<close>

datatype server_error = ServerError string

text \<open>
  \<open>Props\<close>. The field \<open>license\<close> is a \<open>Record<string, any>\<close> that the code also tests for
  being present; optional properties (\<open>?:\<close>) and nullable ones are options.
  \<open>match_params_team\<close> is \<open>match.params.team\<close>, the route slug.
\<close>

record Props =
  license :: "(string \<rightharpoonup> string) option"
  currentUser :: "UserProfile option"
  currentChannelId :: "string option"
  currentTeamId :: "string option"
  mfaRequired :: bool
  match_params_team :: string
  previousTeamId :: "string option"
  teamsList :: "Team list option"
  collapsedThreads :: bool
  selectedThreadId :: "string option"
  isCustomGroupsEnabled :: bool

record State =
  team :: "Team option"
  finishedFetchingChannels :: bool
  prevTeam :: string
  state_teamsList :: "Team list option"

text \<open>
  What the file imports and what the awaited actions answer, taken as parameters:
  the constant \<open>Constants.RESERVED_TEAM_NAMES\<close>, the predicates \<open>isGuest\<close> and
  \<open>UserAgent.isIosSafari\<close>, the \<open>data\<close> of \<open>getTeamByName\<close>'s result (absent when the
  server knows no such team) and the \<open>error\<close> of \<open>addUserToTeam\<close>'s result.
\<close>

record env =
  RESERVED_TEAM_NAMES :: "string list"
  isGuest :: "string \<Rightarrow> bool"
  isIosSafari :: bool
  getTeamByName :: "string \<Rightarrow> Team option"
  addUserToTeam :: "string \<Rightarrow> string option \<Rightarrow> server_error option"

text \<open>Calls to collaborators, with their arguments, in the order the code makes them.\<close>

datatype effect =
    HistoryPush string
  | ClearInterval
  | SetInterval int
  | ConsoleLog string
  | Reconnect bool
  | SetTeamIdJoinedOnLoad "string option"
  | EmitCloseRightHandSide
  | GetMyTeamUnreads bool
  | SelectTeam Team
  | SetPreviousTeamId string
  | FetchMyChannelsAndMembersREST string
  | LoadStatusesForChannelAndSidebar
  | GetGroupsByUserIdPaginated string bool nat nat bool
  | GetAllGroupsAssociatedToChannelsInTeam string bool
  | GetAllGroupsAssociatedToTeam string bool
  | GetGroups bool nat nat
  | GetTeamByNameCall string
  | AddUserToTeamCall string "string option"
  | StartPeriodicStatusUpdates
  | StopPeriodicStatusUpdates
  | FetchAllMyTeamsChannelsAndChannelMembersREST
  | INoBounceEnable
  | INoBounceDisable
  | AddEventListener string
  | RemoveEventListener string
  | ViewChannel string
  | MarkChannelAsReadOnFocus string

datatype js_error = TypeError

datatype view = EmptyDiv | RouteSwitch bool

record world =
  state :: "State option"
  blurTime :: int
  wakeUpInterval :: bool
  lastTime :: int
  isActive :: bool
  trace :: "effect list"

definition WAKEUP_CHECK_INTERVAL :: int where
  "WAKEUP_CHECK_INTERVAL = 30000"

definition WAKEUP_THRESHOLD :: int where
  "WAKEUP_THRESHOLD = 60000"

definition UNREAD_CHECK_TIME_MILLISECONDS :: int where
  "UNREAD_CHECK_TIME_MILLISECONDS = 10000"

definition error_route :: string where
  "error_route = ''/error?type=team_not_found''"

definition mfa_route :: string where
  "mfa_route = ''/mfa/setup''"

section \<open>Helpers\<close>

text \<open>A string-valued property used as a condition: absent and empty are both falsy.\<close>

definition truthy :: "string option \<Rightarrow> bool" where
  "truthy s = (case s of None \<Rightarrow> False | Some v \<Rightarrow> v \<noteq> [])"

definition emit :: "effect \<Rightarrow> world \<Rightarrow> world" where
  "emit x w = w\<lparr>trace := trace w @ [x]\<rparr>"

text \<open>The calls made between two worlds, the second reached from the first.\<close>

definition issued :: "world \<Rightarrow> world \<Rightarrow> effect list" where
  "issued w w' = drop (length (trace w)) (trace w')"

text \<open>
  \<open>this.setState\<close> merges a partial state into \<open>this.state\<close>. Called before the
  constructor has assigned \<open>this.state\<close> (the component is not mounted) it changes nothing.
\<close>

definition setState :: "(State \<Rightarrow> State) \<Rightarrow> world \<Rightarrow> world" where
  "setState f w = w\<lparr>state := map_option f (state w)\<rparr>"

text \<open>
  The module's top level: \<open>let lastTime = Date.now()\<close>; \<open>wakeUpInterval\<close> is declared and
  holds no timer. No instance exists yet, so \<open>state\<close> is unassigned and \<open>blurTime\<close> is
  not read before a constructor writes it.
\<close>

definition module_load :: "int \<Rightarrow> world" where
  "module_load now =
     \<lparr>state = None, blurTime = 0, wakeUpInterval = False, lastTime = now,
      isActive = False, trace = []\<rparr>"

section \<open>The methods\<close>

text \<open>The callback given to \<open>window.setInterval\<close> in the constructor.\<close>

definition wakeUpTick :: "int \<Rightarrow> world \<Rightarrow> world" where
  "wakeUpTick currentTime w =
     (let w1 = (if currentTime > lastTime w + WAKEUP_THRESHOLD
                then emit (Reconnect False)
                       (emit (ConsoleLog ''computer woke up - fetching latest'') w)
                else w)
      in w1\<lparr>lastTime := currentTime\<rparr>)"

text \<open>The \<open>then\<close> callback of the channel fetch issued by \<open>initTeam\<close>.\<close>

definition fetchMyChannelsAndMembersREST_then :: "world \<Rightarrow> world" where
  "fetchMyChannelsAndMembersREST_then w =
     setState (\<lambda>s. s\<lparr>finishedFetchingChannels := True\<rparr>) w"

definition license_is_true :: "Props \<Rightarrow> string \<Rightarrow> bool" where
  "license_is_true p k = (case license p of None \<Rightarrow> False | Some l \<Rightarrow> l k = Some ''true'')"

definition initTeam :: "env \<Rightarrow> Props \<Rightarrow> Team \<Rightarrow> world \<Rightarrow> world" where
  "initTeam e p t w0 =
     (let w1 = (if Some (team_id t) \<noteq> previousTeamId p
                then emit EmitCloseRightHandSide w0 else w0);
          w2 = emit (GetMyTeamUnreads (collapsedThreads p)) w1;
          w3 = emit (SelectTeam t) w2;
          w4 = emit (SetPreviousTeamId (team_id t)) w3;
          w5 = (case currentUser p of
                  None \<Rightarrow> w4
                | Some u \<Rightarrow>
                    if isGuest e (roles u)
                    then setState (\<lambda>s. s\<lparr>finishedFetchingChannels := False\<rparr>) w4
                    else w4);
          w6 = emit (FetchMyChannelsAndMembersREST (team_id t)) w5;
          w7 = emit LoadStatusesForChannelAndSidebar w6
      in if license p \<noteq> None \<and> license_is_true p ''IsLicensed'' \<and>
            (license_is_true p ''LDAPGroups'' \<or> isCustomGroupsEnabled p)
         then
           (let w8 = (case currentUser p of
                        None \<Rightarrow> w7
                      | Some u \<Rightarrow>
                          emit (GetGroupsByUserIdPaginated (user_id u) False 0 60 True) w7);
                w9 = (if license_is_true p ''LDAPGroups''
                      then emit (GetAllGroupsAssociatedToChannelsInTeam (team_id t) True) w8
                      else w8)
            in if group_constrained t \<and> license_is_true p ''LDAPGroups''
               then emit (GetAllGroupsAssociatedToTeam (team_id t) True) w9
               else emit (GetGroups False 0 60) w9)
         else w7)"

text \<open>
  \<open>joinTeam\<close> is \<open>async\<close>: it awaits \<open>getTeamByName\<close> and then \<open>addUserToTeam\<close>. The
  answers come from \<open>env\<close> and the continuation is run in place, so the function gives
  the world once the join has finished.
\<close>

definition joinTeam :: "env \<Rightarrow> Props \<Rightarrow> bool \<Rightarrow> world \<Rightarrow> world" where
  "joinTeam e p firstLoad w =
     (if match_params_team p \<in> set (RESERVED_TEAM_NAMES e) then w
      else
        (let w1 = emit (GetTeamByNameCall (match_params_team p)) w in
         case getTeamByName e (match_params_team p) of
           None \<Rightarrow> emit (HistoryPush error_route) w1
         | Some t \<Rightarrow>
             if delete_at t = 0 then
               (let uid = map_option user_id (currentUser p);
                    w2 = emit (AddUserToTeamCall (team_id t) uid) w1 in
                case addUserToTeam e (team_id t) uid of
                  Some err \<Rightarrow> emit (HistoryPush error_route) w2
                | None \<Rightarrow>
                    (let w3 = (if firstLoad
                               then emit (SetTeamIdJoinedOnLoad (Some (team_id t))) w2
                               else w2);
                         w4 = setState (\<lambda>s. s\<lparr>team := Some t\<rparr>) w3
                     in initTeam e p t w4))
             else emit (HistoryPush error_route) w1))"

definition updateCurrentTeam :: "env \<Rightarrow> Props \<Rightarrow> world \<Rightarrow> Team option \<times> world" where
  "updateCurrentTeam e p w =
     (case (case teamsList p of
              None \<Rightarrow> None
            | Some ts \<Rightarrow> find (\<lambda>teamObj. team_name teamObj = match_params_team p) ts) of
        Some t \<Rightarrow> (Some t, initTeam e p t w)
      | None \<Rightarrow> (None, w))"

text \<open>
  The constructor. Under \<open>mfaRequired\<close> it returns after the redirect and \<open>this.state\<close>
  stays unassigned.
\<close>

definition constructor :: "env \<Rightarrow> Props \<Rightarrow> int \<Rightarrow> world \<Rightarrow> world" where
  "constructor e p now w0 =
     (let w1 = w0\<lparr>state := None, blurTime := now\<rparr> in
      if mfaRequired p then emit (HistoryPush mfa_route) w1
      else
        (let w2 = emit ClearInterval w1;
             w3 = (emit (SetInterval WAKEUP_CHECK_INTERVAL) w2)\<lparr>wakeUpInterval := True\<rparr>;
             (t, w4) = updateCurrentTeam e p w3;
             w5 = w4\<lparr>state := Some \<lparr>team = t, finishedFetchingChannels = False,
                                      prevTeam = match_params_team p,
                                      state_teamsList = teamsList p\<rparr>\<rparr>;
             w6 = emit (SetTeamIdJoinedOnLoad None) w5
         in if t = None then joinTeam e p True w6 else w6))"

text \<open>
  \<open>static getDerivedStateFromProps(nextProps, state)\<close> reads \<open>state.prevTeam\<close>: on a
  state that was never assigned this is a \<open>TypeError\<close>. The result is the partial state
  merged into \<open>state\<close>.
\<close>

definition getDerivedStateFromProps :: "Props \<Rightarrow> State option \<Rightarrow> js_error + State" where
  "getDerivedStateFromProps nextProps st =
     (case st of
        None \<Rightarrow> Inl TypeError
      | Some s \<Rightarrow>
          if prevTeam s \<noteq> match_params_team nextProps then
            (let t = (case teamsList nextProps of
                        None \<Rightarrow> None
                      | Some ts \<Rightarrow>
                          find (\<lambda>teamObj. team_name teamObj = match_params_team nextProps) ts)
             in Inr (s\<lparr>prevTeam := match_params_team nextProps, team := t\<rparr>))
          else Inr (s\<lparr>prevTeam := match_params_team nextProps\<rparr>))"

text \<open>
  \<open>render\<close> reads \<open>this.state.team\<close>; which routes the switch holds is not modelled,
  only the \<open>fetchingChannels\<close> flag handed to the channel view.
\<close>

definition render :: "State option \<Rightarrow> js_error + view" where
  "render st =
     (case st of
        None \<Rightarrow> Inl TypeError
      | Some s \<Rightarrow>
          if team s = None then Inr EmptyDiv
          else Inr (RouteSwitch (\<not> finishedFetchingChannels s)))"

definition componentDidMount :: "env \<Rightarrow> world \<Rightarrow> world" where
  "componentDidMount e w0 =
     (let w1 = emit StartPeriodicStatusUpdates w0;
          w2 = emit FetchAllMyTeamsChannelsAndChannelMembersREST w1;
          w3 = w2\<lparr>isActive := True\<rparr>;
          w4 = (if isIosSafari e then emit INoBounceEnable w3 else w3);
          w5 = emit (AddEventListener ''focus'') w4;
          w6 = emit (AddEventListener ''blur'') w5
      in emit (AddEventListener ''keydown'') w6)"

definition componentDidUpdate :: "env \<Rightarrow> Props \<Rightarrow> Props \<Rightarrow> world \<Rightarrow> js_error + world" where
  "componentDidUpdate e prevProps p w =
     (if match_params_team p \<noteq> match_params_team prevProps then
        (case state w of
           None \<Rightarrow> Inl TypeError
         | Some s \<Rightarrow>
             (case team s of
                Some t \<Rightarrow> Inr (initTeam e p t w)
              | None \<Rightarrow> Inr (joinTeam e p False w)))
      else Inr w)"

definition componentWillUnmount :: "env \<Rightarrow> world \<Rightarrow> world" where
  "componentWillUnmount e w0 =
     (let w1 = emit StopPeriodicStatusUpdates (w0\<lparr>isActive := False\<rparr>);
          w2 = (if isIosSafari e then emit INoBounceDisable w1 else w1);
          w3 = (emit ClearInterval w2)\<lparr>wakeUpInterval := False\<rparr>;
          w4 = emit (RemoveEventListener ''focus'') w3;
          w5 = emit (RemoveEventListener ''blur'') w4
      in emit (RemoveEventListener ''keydown'') w5)"

definition handleBlur :: "Props \<Rightarrow> int \<Rightarrow> world \<Rightarrow> world" where
  "handleBlur p now w0 =
     (let w1 = w0\<lparr>isActive := False, blurTime := now\<rparr>
      in if currentUser p \<noteq> None then emit (ViewChannel []) w1 else w1)"

definition handleFocus :: "Props \<Rightarrow> int \<Rightarrow> world \<Rightarrow> world" where
  "handleFocus p now w0 =
     (let w1 = (if truthy (selectedThreadId p) then w0\<lparr>isActive := True\<rparr> else w0);
          w2 = (case currentChannelId p of
                  None \<Rightarrow> w1
                | Some c \<Rightarrow>
                    if c \<noteq> [] then (emit (MarkChannelAsReadOnFocus c) w1)\<lparr>isActive := True\<rparr>
                    else w1)
      in case currentTeamId p of
           None \<Rightarrow> w2
         | Some tid \<Rightarrow>
             if now - blurTime w0 > UNREAD_CHECK_TIME_MILLISECONDS \<and> tid \<noteq> []
             then emit (FetchMyChannelsAndMembersREST tid) w2
             else w2)"

section \<open>The component's life as React drives it\<close>

text \<open>
  Mounting runs the constructor, then \<open>getDerivedStateFromProps\<close> on the constructed
  state, then \<open>render\<close>, then \<open>componentDidMount\<close>; an exception thrown on the way ends
  the mount, and the later steps do not run. The result pairs the exception, if any, with
  the world reached.
\<close>

definition mount :: "env \<Rightarrow> Props \<Rightarrow> int \<Rightarrow> world \<Rightarrow> js_error option \<times> world" where
  "mount e p now w0 =
     (let w1 = constructor e p now w0 in
      case getDerivedStateFromProps p (state w1) of
        Inl err \<Rightarrow> (Some err, w1)
      | Inr s \<Rightarrow>
          (let w2 = w1\<lparr>state := Some s\<rparr> in
           case render (state w2) of
             Inl err \<Rightarrow> (Some err, w2)
           | Inr v \<Rightarrow> (None, componentDidMount e w2)))"

text \<open>
  An update with new props runs \<open>getDerivedStateFromProps\<close>, \<open>render\<close> and then
  \<open>componentDidUpdate\<close> with the props of before.
\<close>

definition update :: "env \<Rightarrow> Props \<Rightarrow> Props \<Rightarrow> world \<Rightarrow> js_error option \<times> world" where
  "update e prevProps p w0 =
     (case getDerivedStateFromProps p (state w0) of
        Inl err \<Rightarrow> (Some err, w0)
      | Inr s \<Rightarrow>
          (let w1 = w0\<lparr>state := Some s\<rparr> in
           case render (state w1) of
             Inl err \<Rightarrow> (Some err, w1)
           | Inr v \<Rightarrow>
               (case componentDidUpdate e prevProps p w1 of
                  Inl err \<Rightarrow> (Some err, w1)
                | Inr w2 \<Rightarrow> (None, w2))))"

section \<open>What is observed of a world\<close>

text \<open>
  The lookup both the constructor (through \<open>updateCurrentTeam\<close>) and
  \<open>getDerivedStateFromProps\<close> perform on the teams list of the props.
\<close>

definition resolve :: "string \<Rightarrow> Team list option \<Rightarrow> Team option" where
  "resolve slug ts =
     (case ts of None \<Rightarrow> None | Some l \<Rightarrow> find (\<lambda>teamObj. team_name teamObj = slug) l)"

definition currentTeam :: "world \<Rightarrow> Team option" where
  "currentTeam w = (case state w of None \<Rightarrow> None | Some s \<Rightarrow> team s)"

definition channelsReady :: "world \<Rightarrow> bool" where
  "channelsReady w = (case state w of None \<Rightarrow> False | Some s \<Rightarrow> finishedFetchingChannels s)"

definition guest :: "env \<Rightarrow> Props \<Rightarrow> bool" where
  "guest e p = (case currentUser p of None \<Rightarrow> False | Some u \<Rightarrow> isGuest e (roles u))"

text \<open>The condition under which \<open>initTeam\<close> enters its group-fetch block.\<close>

definition group_fetch_gate :: "Props \<Rightarrow> bool" where
  "group_fetch_gate p =
     (license_is_true p ''IsLicensed'' \<and>
      (license_is_true p ''LDAPGroups'' \<or> isCustomGroupsEnabled p))"

definition is_navigation :: "effect \<Rightarrow> bool" where
  "is_navigation x = (case x of HistoryPush _ \<Rightarrow> True | _ \<Rightarrow> False)"

definition is_team_call :: "effect \<Rightarrow> bool" where
  "is_team_call x =
     (case x of GetTeamByNameCall _ \<Rightarrow> True | AddUserToTeamCall _ _ \<Rightarrow> True | _ \<Rightarrow> False)"

definition is_group_fetch :: "effect \<Rightarrow> bool" where
  "is_group_fetch x =
     (case x of
        GetGroupsByUserIdPaginated _ _ _ _ _ \<Rightarrow> True
      | GetAllGroupsAssociatedToChannelsInTeam _ _ \<Rightarrow> True
      | GetAllGroupsAssociatedToTeam _ _ \<Rightarrow> True
      | GetGroups _ _ _ \<Rightarrow> True
      | _ \<Rightarrow> False)"

definition is_team_or_general_groups_fetch :: "effect \<Rightarrow> bool" where
  "is_team_or_general_groups_fetch x =
     (case x of GetAllGroupsAssociatedToTeam _ _ \<Rightarrow> True | GetGroups _ _ _ \<Rightarrow> True | _ \<Rightarrow> False)"

definition is_user_groups_fetch :: "effect \<Rightarrow> bool" where
  "is_user_groups_fetch x =
     (case x of GetGroupsByUserIdPaginated _ _ _ _ _ \<Rightarrow> True | _ \<Rightarrow> False)"

definition is_reconnect :: "effect \<Rightarrow> bool" where
  "is_reconnect x = (case x of Reconnect _ \<Rightarrow> True | _ \<Rightarrow> False)"

definition is_timer_or_listener :: "effect \<Rightarrow> bool" where
  "is_timer_or_listener x =
     (case x of SetInterval _ \<Rightarrow> True | AddEventListener _ \<Rightarrow> True | _ \<Rightarrow> False)"

text \<open>
  The specification's table of the group fetch, written from its words: nothing unless
  licensed with LDAP groups or custom groups enabled; the team's groups for a
  group-constrained team with LDAP groups enabled; the general list otherwise. It is
  compared with \<open>initTeam\<close> below.
\<close>

datatype group_choice = NoGroupFetch | TeamGroups | GeneralGroups

definition group_fetch_selection :: "bool \<Rightarrow> bool \<Rightarrow> bool \<Rightarrow> bool \<Rightarrow> group_choice" where
  "group_fetch_selection licensed ldapGroupsEnabled customGroupsEnabled groupConstrained =
     (if \<not> (licensed \<and> (ldapGroupsEnabled \<or> customGroupsEnabled)) then NoGroupFetch
      else if groupConstrained \<and> ldapGroupsEnabled then TeamGroups
      else GeneralGroups)"

text \<open>The calls of one run of \<open>initTeam\<close>, in order (lemma \<open>trace_initTeam\<close>).\<close>

definition initTeam_calls :: "Props \<Rightarrow> Team \<Rightarrow> effect list" where
  "initTeam_calls p t =
     (if Some (team_id t) \<noteq> previousTeamId p then [EmitCloseRightHandSide] else []) @
     [GetMyTeamUnreads (collapsedThreads p), SelectTeam t, SetPreviousTeamId (team_id t),
      FetchMyChannelsAndMembersREST (team_id t), LoadStatusesForChannelAndSidebar] @
     (if group_fetch_gate p then
        (case currentUser p of
           None \<Rightarrow> []
         | Some u \<Rightarrow> [GetGroupsByUserIdPaginated (user_id u) False 0 60 True]) @
        (if license_is_true p ''LDAPGroups''
         then [GetAllGroupsAssociatedToChannelsInTeam (team_id t) True] else []) @
        [if group_constrained t \<and> license_is_true p ''LDAPGroups''
         then GetAllGroupsAssociatedToTeam (team_id t) True
         else GetGroups False 0 60]
      else [])"

section \<open>Concrete inputs\<close>

definition team_alpha :: Team where
  "team_alpha = \<lparr>team_id = ''t1'', team_name = ''alpha'', delete_at = 0, group_constrained = False\<rparr>"

definition team_beta :: Team where
  "team_beta = \<lparr>team_id = ''t2'', team_name = ''beta'', delete_at = 0, group_constrained = True\<rparr>"

definition team_gamma :: Team where
  "team_gamma = \<lparr>team_id = ''t3'', team_name = ''gamma'', delete_at = 0, group_constrained = False\<rparr>"

definition team_deleted :: Team where
  "team_deleted = \<lparr>team_id = ''t8'', team_name = ''deleted'', delete_at = 1700000000000,
                    group_constrained = False\<rparr>"

definition team_closed :: Team where
  "team_closed = \<lparr>team_id = ''t9'', team_name = ''closed'', delete_at = 0, group_constrained = False\<rparr>"

definition user_member :: UserProfile where
  "user_member = \<lparr>user_id = ''u1'', roles = ''system_user''\<rparr>"

definition user_guest :: UserProfile where
  "user_guest = \<lparr>user_id = ''u2'', roles = ''system_guest''\<rparr>"

definition ldap_license :: "string \<rightharpoonup> string" where
  "ldap_license = [''IsLicensed'' \<mapsto> ''true'', ''LDAPGroups'' \<mapsto> ''true'']"

definition unlicensed :: "string \<rightharpoonup> string" where
  "unlicensed = [''IsLicensed'' \<mapsto> ''false'', ''LDAPGroups'' \<mapsto> ''true'']"

text \<open>
  The server knows the teams gamma, deleted (soft-deleted) and closed (it rejects the
  request to add the user); \<open>admin_console\<close> is a reserved name.
\<close>

definition example_env :: env where
  "example_env =
     \<lparr>RESERVED_TEAM_NAMES = [''admin_console''],
      isGuest = (\<lambda>r. r = ''system_guest''),
      isIosSafari = False,
      getTeamByName = (\<lambda>n. if n = ''gamma'' then Some team_gamma
                            else if n = ''deleted'' then Some team_deleted
                            else if n = ''closed'' then Some team_closed
                            else None),
      addUserToTeam = (\<lambda>tid uid. if tid = ''t9'' then Some (ServerError ''forbidden'') else None)\<rparr>"

text \<open>Props of a member of the teams alpha and beta, on the route of the given slug.\<close>

definition example_props :: "string \<Rightarrow> Props" where
  "example_props slug =
     \<lparr>license = None, currentUser = Some user_member, currentChannelId = None,
      currentTeamId = None, mfaRequired = False, match_params_team = slug,
      previousTeamId = None, teamsList = Some [team_alpha, team_beta],
      collapsedThreads = False, selectedThreadId = None, isCustomGroupsEnabled = False\<rparr>"

text \<open>A controller on the route of alpha whose channel fetch has completed.\<close>

definition world_on_alpha :: world where
  "world_on_alpha =
     \<lparr>state = Some \<lparr>team = Some team_alpha, finishedFetchingChannels = True,
                    prevTeam = ''alpha'', state_teamsList = Some [team_alpha, team_beta]\<rparr>,
      blurTime = 0, wakeUpInterval = True, lastTime = 0, isActive = True, trace = []\<rparr>"

lemmas example_defs =
  team_alpha_def team_beta_def team_gamma_def team_deleted_def team_closed_def
  user_member_def user_guest_def ldap_license_def unlicensed_def example_env_def
  example_props_def world_on_alpha_def module_load_def

lemmas method_defs =
  constructor_def updateCurrentTeam_def joinTeam_def initTeam_def license_is_true_def
  getDerivedStateFromProps_def render_def componentDidMount_def componentDidUpdate_def
  mount_def update_def handleBlur_def handleFocus_def wakeUpTick_def
  fetchMyChannelsAndMembersREST_then_def setState_def emit_def issued_def truthy_def
  WAKEUP_CHECK_INTERVAL_def WAKEUP_THRESHOLD_def UNREAD_CHECK_TIME_MILLISECONDS_def
  error_route_def mfa_route_def

lemmas observation_defs =
  resolve_def currentTeam_def channelsReady_def guest_def group_fetch_gate_def
  is_navigation_def is_team_call_def is_group_fetch_def is_team_or_general_groups_fetch_def
  is_user_groups_fetch_def is_reconnect_def is_timer_or_listener_def
  group_fetch_selection_def

section \<open>Facts about the methods\<close>

lemma license_gate: "license_is_true p k \<Longrightarrow> license p \<noteq> None"
  by (auto simp: license_is_true_def split: option.splits)

lemma trace_initTeam: "trace (initTeam e p t w) = trace w @ initTeam_calls p t"
  using license_gate[of p "''IsLicensed''"]
  by (auto simp: initTeam_def initTeam_calls_def group_fetch_gate_def Let_def emit_def
        setState_def split: option.splits)

lemma issued_initTeam: "issued w (initTeam e p t w) = initTeam_calls p t"
  by (simp add: issued_def trace_initTeam)

lemma state_initTeam:
  "state (initTeam e p t w) =
     (if guest e p
      then map_option (\<lambda>s. s\<lparr>finishedFetchingChannels := False\<rparr>) (state w)
      else state w)"
  by (auto simp: initTeam_def guest_def Let_def emit_def setState_def split: option.splits)

lemma lastTime_initTeam: "lastTime (initTeam e p t w) = lastTime w"
  by (auto simp: initTeam_def Let_def emit_def setState_def split: option.splits)

lemma lastTime_joinTeam: "lastTime (joinTeam e p f w) = lastTime w"
  by (auto simp: joinTeam_def lastTime_initTeam Let_def emit_def setState_def
        split: option.splits)

lemma lastTime_constructor: "lastTime (constructor e p now w) = lastTime w"
  by (auto simp: constructor_def updateCurrentTeam_def lastTime_initTeam lastTime_joinTeam
        Let_def emit_def split: option.splits prod.splits)

lemma trace_joinTeam_prefix: "\<exists>xs. trace (joinTeam e p f w) = trace w @ xs"
  by (auto simp: joinTeam_def trace_initTeam Let_def emit_def setState_def
        split: option.splits)

lemma constructor_interval:
  "\<not> mfaRequired p \<Longrightarrow>
   SetInterval WAKEUP_CHECK_INTERVAL \<in> set (issued w (constructor e p now w))"
  using trace_joinTeam_prefix[of e p True]
  by (auto simp: constructor_def updateCurrentTeam_def joinTeam_def trace_initTeam issued_def
        setState_def Let_def emit_def split: option.splits prod.splits)

text \<open>
  \<open>componentDidMount\<close> tests nothing before it registers the three listeners.
\<close>

lemma componentDidMount_listeners:
  "filter is_timer_or_listener (issued w (componentDidMount e w)) =
     [AddEventListener ''focus'', AddEventListener ''blur'', AddEventListener ''keydown'']"
  by (simp add: componentDidMount_def issued_def emit_def Let_def is_timer_or_listener_def)

lemma initTeam_calls_no_timer: "filter is_timer_or_listener (initTeam_calls p t) = []"
  by (auto simp: initTeam_calls_def is_timer_or_listener_def split: option.splits)

lemma joinTeam_calls_no_timer:
  "\<exists>xs. trace (joinTeam e p f w) = trace w @ xs \<and> filter is_timer_or_listener xs = []"
  using initTeam_calls_no_timer
  by (auto simp: joinTeam_def trace_initTeam Let_def emit_def setState_def
        is_timer_or_listener_def split: option.splits)

lemma state_joinTeam:
  "state w = Some s \<Longrightarrow> \<exists>s'. state (joinTeam e p f w) = Some s'"
  by (auto simp: joinTeam_def state_initTeam Let_def emit_def setState_def split: option.splits)

lemma constructor_not_found:
  assumes "\<not> mfaRequired p" and "resolve (match_params_team p) (teamsList p) = None"
  shows "\<exists>w6 s. constructor e p now w = joinTeam e p True w6 \<and> state w6 = Some s \<and>
           trace w6 = trace w @ [ClearInterval, SetInterval 30000, SetTeamIdJoinedOnLoad None]"
  using assms
  apply (simp add: constructor_def updateCurrentTeam_def resolve_def Let_def emit_def
          WAKEUP_CHECK_INTERVAL_def)
  apply (rule exI, rule conjI, rule refl)
  apply simp
  done

lemma constructor_timer:
  assumes "\<not> mfaRequired p"
  shows "\<exists>s xs. state (constructor e p now w) = Some s \<and>
           trace (constructor e p now w) = trace w @ xs \<and>
           filter is_timer_or_listener xs = [SetInterval 30000]"
proof (cases "resolve (match_params_team p) (teamsList p)")
  case (Some t)
  then show ?thesis using assms initTeam_calls_no_timer[of p t]
    by (simp add: constructor_def updateCurrentTeam_def resolve_def trace_initTeam
          Let_def emit_def is_timer_or_listener_def WAKEUP_CHECK_INTERVAL_def)
next
  case None
  obtain w6 s where w6: "constructor e p now w = joinTeam e p True w6" "state w6 = Some s"
      "trace w6 = trace w @ [ClearInterval, SetInterval 30000, SetTeamIdJoinedOnLoad None]"
    using constructor_not_found[OF assms None] by blast
  obtain s' where s': "state (joinTeam e p True w6) = Some s'"
    using state_joinTeam[OF w6(2)] by blast
  obtain ys where ys: "trace (joinTeam e p True w6) = trace w6 @ ys"
      "filter is_timer_or_listener ys = []"
    using joinTeam_calls_no_timer by blast
  show ?thesis
    using s' ys by (simp add: w6(1) w6(3) is_timer_or_listener_def)
qed

text \<open>
  A mount that no exception stops reaches \<open>componentDidMount\<close>: without MFA the timer
  is started and the three listeners are registered.
\<close>

lemma mount_acquires:
  assumes "\<not> mfaRequired p"
  shows "fst (mount e p now w) = None \<and>
         filter is_timer_or_listener (issued w (snd (mount e p now w))) =
           [SetInterval 30000, AddEventListener ''focus'', AddEventListener ''blur'',
            AddEventListener ''keydown'']"
proof -
  obtain s xs where c: "state (constructor e p now w) = Some s"
      "trace (constructor e p now w) = trace w @ xs"
      "filter is_timer_or_listener xs = [SetInterval 30000]"
    using constructor_timer[OF assms] by blast
  have "fst (mount e p now w) = None \<and>
        (\<exists>ys. trace (snd (mount e p now w)) = trace (constructor e p now w) @ ys \<and>
              filter is_timer_or_listener ys =
                [AddEventListener ''focus'', AddEventListener ''blur'',
                 AddEventListener ''keydown''])"
    using c(1)
    by (simp add: mount_def getDerivedStateFromProps_def render_def Let_def
          componentDidMount_def emit_def is_timer_or_listener_def)
  then show ?thesis
    using c(2,3) by (auto simp: issued_def)
qed

text \<open>
  Resolution at construction: the slug is looked up in the teams list and, when it is
  not there, \<open>joinTeam\<close> runs with \<open>firstLoad\<close>.
\<close>

lemma resolution_on_construct:
  assumes "\<not> mfaRequired p"
  shows "if resolve (match_params_team p) (teamsList p) = None \<and>
            match_params_team p \<in> set (RESERVED_TEAM_NAMES e)
         then currentTeam (constructor e p now w) = None \<and>
              HistoryPush error_route \<notin> set (issued w (constructor e p now w))
         else (currentTeam (constructor e p now w) \<noteq> None) \<noteq>
              (HistoryPush error_route \<in> set (issued w (constructor e p now w)))"
  using assms
  by (auto simp: constructor_def updateCurrentTeam_def joinTeam_def resolve_def currentTeam_def
        trace_initTeam state_initTeam initTeam_calls_def issued_def error_route_def
        setState_def Let_def emit_def split: option.splits prod.splits if_splits)

text \<open>Resolution at a change of the route's slug.\<close>

lemma resolution_on_route_change:
  assumes "state w = Some s" and "prevTeam s = match_params_team prevProps"
    and "match_params_team p \<noteq> match_params_team prevProps"
  shows "fst (update e prevProps p w) = None \<and>
         (if resolve (match_params_team p) (teamsList p) = None \<and>
             match_params_team p \<in> set (RESERVED_TEAM_NAMES e)
          then currentTeam (snd (update e prevProps p w)) = None \<and>
               HistoryPush error_route \<notin> set (issued w (snd (update e prevProps p w)))
          else (currentTeam (snd (update e prevProps p w)) \<noteq> None) \<noteq>
               (HistoryPush error_route \<in> set (issued w (snd (update e prevProps p w)))))"
  using assms
  by (auto simp: update_def getDerivedStateFromProps_def render_def componentDidUpdate_def
        joinTeam_def resolve_def currentTeam_def
        trace_initTeam state_initTeam initTeam_calls_def issued_def error_route_def
        setState_def Let_def emit_def split: option.splits prod.splits if_splits sum.splits)

section \<open>Team resolution\<close>

text \<open>
  C1, as amended. Once resolution has completed for a slug that is found in the teams
  list or is not reserved, exactly one of the two holds: the current team is set, or a
  navigation to the error route was issued. For a reserved slug that is not in the teams
  list neither holds: the current team stays null and no navigation is issued. This is so
  for the slug present at construction and for every later change of the slug.
\<close>

theorem resolution_team_or_error_navigation:
  "(\<not> mfaRequired p \<longrightarrow>
      (if resolve (match_params_team p) (teamsList p) = None \<and>
          match_params_team p \<in> set (RESERVED_TEAM_NAMES e)
       then currentTeam (constructor e p now w) = None \<and>
            HistoryPush error_route \<notin> set (issued w (constructor e p now w))
       else (currentTeam (constructor e p now w) \<noteq> None) \<noteq>
            (HistoryPush error_route \<in> set (issued w (constructor e p now w))))) \<and>
   (state w = Some s \<and> prevTeam s = match_params_team prevProps \<and>
    match_params_team p \<noteq> match_params_team prevProps \<longrightarrow>
      fst (update e prevProps p w) = None \<and>
      (if resolve (match_params_team p) (teamsList p) = None \<and>
          match_params_team p \<in> set (RESERVED_TEAM_NAMES e)
       then currentTeam (snd (update e prevProps p w)) = None \<and>
            HistoryPush error_route \<notin> set (issued w (snd (update e prevProps p w)))
       else (currentTeam (snd (update e prevProps p w)) \<noteq> None) \<noteq>
            (HistoryPush error_route \<in> set (issued w (snd (update e prevProps p w))))))"
  using resolution_on_construct[of p e now w] resolution_on_route_change[of w s prevProps p e]
  by blast

text \<open>
  At construction on the route of alpha (in the teams list) the team is set and nothing
  navigates; on the route of a team the server does not know the error navigation is
  issued and no team is set. The same holds when the route changes from alpha to beta.
\<close>

theorem resolution_team_or_error_navigation_witness:
  "\<not> mfaRequired (example_props ''alpha'') \<and>
   currentTeam (constructor example_env (example_props ''alpha'') 0 (module_load 0)) \<noteq> None \<and>
   HistoryPush error_route \<notin>
     set (issued (module_load 0) (constructor example_env (example_props ''alpha'') 0 (module_load 0))) \<and>
   currentTeam (constructor example_env (example_props ''nowhere'') 0 (module_load 0)) = None \<and>
   HistoryPush error_route \<in>
     set (issued (module_load 0) (constructor example_env (example_props ''nowhere'') 0 (module_load 0))) \<and>
   state world_on_alpha \<noteq> None \<and>
   currentTeam (snd (update example_env (example_props ''alpha'') (example_props ''beta'')
                      world_on_alpha)) \<noteq> None \<and>
   HistoryPush error_route \<notin>
     set (issued world_on_alpha
            (snd (update example_env (example_props ''alpha'') (example_props ''beta'')
                    world_on_alpha)))"
  using resolution_team_or_error_navigation
          [of "example_props ''alpha''" example_env 0 "module_load 0"]
        resolution_team_or_error_navigation
          [of "example_props ''nowhere''" example_env 0 "module_load 0"]
        resolution_team_or_error_navigation
          [of "example_props ''beta''" example_env 0 world_on_alpha
              "\<lparr>team = Some team_alpha, finishedFetchingChannels = True,
                prevTeam = ''alpha'', state_teamsList = Some [team_alpha, team_beta]\<rparr>"
              "example_props ''alpha''"]
  by (simp add: example_defs method_defs observation_defs)

text \<open>
  The claim as first stated fails on a reserved slug: constructed on the route
  \<open>admin_console\<close>, the controller has finished resolving (the lookup found nothing and
  \<open>joinTeam\<close> returned at once), the current team is null and no navigation to the error
  route was issued.
\<close>

theorem reserved_slug_neither_team_nor_error:
  "currentTeam (constructor example_env (example_props ''admin_console'') 0 (module_load 0))
     = None \<and>
   HistoryPush error_route \<notin>
     set (issued (module_load 0)
            (constructor example_env (example_props ''admin_console'') 0 (module_load 0)))"
  by (simp add: example_defs method_defs observation_defs)

section \<open>Joining a team\<close>

text \<open>
  C3. For every slug in the reserved-name set \<open>joinTeam\<close> does nothing: the world it
  returns is the one it was given, so no call is issued at all (no fetch of the team by
  name, no request to add the user, no navigation) and the state is untouched.
\<close>

theorem joinTeam_reserved_noop:
  "match_params_team p \<in> set (RESERVED_TEAM_NAMES e) \<Longrightarrow>
   joinTeam e p firstLoad w = w \<and> issued w (joinTeam e p firstLoad w) = []"
  by (simp add: joinTeam_def issued_def)

theorem joinTeam_reserved_noop_witness:
  "match_params_team (example_props ''admin_console'') \<in> set (RESERVED_TEAM_NAMES example_env) \<and>
   joinTeam example_env (example_props ''admin_console'') True (module_load 0) = module_load 0 \<and>
   issued (module_load 0)
     (joinTeam example_env (example_props ''admin_console'') True (module_load 0)) = []"
  using joinTeam_reserved_noop
          [of "example_props ''admin_console''" example_env True "module_load 0"]
  by (simp add: example_defs method_defs observation_defs)

text \<open>
  C4. For every slug that is not reserved, when the server knows no team of that name,
  or the team has \<open>delete_at \<noteq> 0\<close>, or the request to add the user returns an error,
  \<open>joinTeam\<close> leaves the state as it was (no team becomes current), and its calls are
  the lookup by name, the add-user request when the team was found and active, and then
  one navigation, to the team-not-found error route, the same in all three cases. Nothing
  that \<open>initTeam\<close> issues is among them.
\<close>

theorem joinTeam_failure_error_navigation:
  assumes "match_params_team p \<notin> set (RESERVED_TEAM_NAMES e)"
    and "case getTeamByName e (match_params_team p) of
           None \<Rightarrow> True
         | Some t \<Rightarrow> delete_at t \<noteq> 0 \<or>
             addUserToTeam e (team_id t) (map_option user_id (currentUser p)) \<noteq> None"
  shows "state (joinTeam e p firstLoad w) = state w \<and>
         issued w (joinTeam e p firstLoad w) =
           GetTeamByNameCall (match_params_team p) #
           (case getTeamByName e (match_params_team p) of
              None \<Rightarrow> []
            | Some t \<Rightarrow>
                if delete_at t = 0
                then [AddUserToTeamCall (team_id t) (map_option user_id (currentUser p))]
                else []) @
           [HistoryPush error_route] \<and>
         filter is_navigation (issued w (joinTeam e p firstLoad w)) = [HistoryPush error_route] \<and>
         filter (\<lambda>x. \<not> is_team_call x) (issued w (joinTeam e p firstLoad w)) =
           [HistoryPush error_route]"
  using assms
  by (auto simp: joinTeam_def issued_def Let_def emit_def is_team_call_def is_navigation_def
        split: option.splits)

text \<open>The three kinds of failure: an unknown team, a soft-deleted one, a rejected request.\<close>

theorem joinTeam_failure_error_navigation_witness:
  "match_params_team (example_props ''nowhere'') \<notin> set (RESERVED_TEAM_NAMES example_env) \<and>
   getTeamByName example_env ''nowhere'' = None \<and>
   getTeamByName example_env ''deleted'' = Some team_deleted \<and> delete_at team_deleted \<noteq> 0 \<and>
   getTeamByName example_env ''closed'' = Some team_closed \<and>
   addUserToTeam example_env ''t9'' (Some ''u1'') \<noteq> None \<and>
   filter is_navigation
     (issued world_on_alpha (joinTeam example_env (example_props ''nowhere'') False world_on_alpha))
     = [HistoryPush error_route] \<and>
   filter is_navigation
     (issued world_on_alpha (joinTeam example_env (example_props ''deleted'') False world_on_alpha))
     = [HistoryPush error_route] \<and>
   filter is_navigation
     (issued world_on_alpha (joinTeam example_env (example_props ''closed'') False world_on_alpha))
     = [HistoryPush error_route] \<and>
   state (joinTeam example_env (example_props ''closed'') False world_on_alpha) =
     state world_on_alpha"
  using joinTeam_failure_error_navigation
          [of "example_props ''nowhere''" example_env False world_on_alpha]
        joinTeam_failure_error_navigation
          [of "example_props ''deleted''" example_env False world_on_alpha]
        joinTeam_failure_error_navigation
          [of "example_props ''closed''" example_env False world_on_alpha]
  by (simp add: example_defs method_defs observation_defs)

section \<open>Initialising a team\<close>

text \<open>
  C2. Which of the two alternative group fetches \<open>initTeam\<close> issues is the
  specification's function of (licensed, LDAP groups enabled, custom groups enabled,
  team group-constrained): none of the two, and no group fetch of any kind, when not
  licensed or when neither feature is enabled; only the fetch of the team's groups when
  the gate passes and the team is group-constrained with LDAP groups enabled; only the
  general group list otherwise. Never both. The third part lists every group fetch other
  than the one of the user's own memberships: they too are fixed by the four flags.
\<close>

theorem initTeam_group_fetch_selection:
  "filter is_team_or_general_groups_fetch (issued w (initTeam e p t w)) =
     (case group_fetch_selection (license_is_true p ''IsLicensed'')
             (license_is_true p ''LDAPGroups'') (isCustomGroupsEnabled p) (group_constrained t) of
        NoGroupFetch \<Rightarrow> []
      | TeamGroups \<Rightarrow> [GetAllGroupsAssociatedToTeam (team_id t) True]
      | GeneralGroups \<Rightarrow> [GetGroups False 0 60]) \<and>
   (group_fetch_selection (license_is_true p ''IsLicensed'')
      (license_is_true p ''LDAPGroups'') (isCustomGroupsEnabled p) (group_constrained t)
      = NoGroupFetch \<longrightarrow>
    filter is_group_fetch (issued w (initTeam e p t w)) = []) \<and>
   filter (\<lambda>x. is_group_fetch x \<and> \<not> is_user_groups_fetch x) (issued w (initTeam e p t w)) =
     (case group_fetch_selection (license_is_true p ''IsLicensed'')
             (license_is_true p ''LDAPGroups'') (isCustomGroupsEnabled p) (group_constrained t) of
        NoGroupFetch \<Rightarrow> []
      | TeamGroups \<Rightarrow>
          [GetAllGroupsAssociatedToChannelsInTeam (team_id t) True,
           GetAllGroupsAssociatedToTeam (team_id t) True]
      | GeneralGroups \<Rightarrow>
          (if license_is_true p ''LDAPGroups''
           then [GetAllGroupsAssociatedToChannelsInTeam (team_id t) True] else []) @
          [GetGroups False 0 60])"
  by (auto simp: issued_initTeam initTeam_calls_def group_fetch_gate_def
        group_fetch_selection_def is_team_or_general_groups_fetch_def is_group_fetch_def
        is_user_groups_fetch_def split: option.splits)

text \<open>
  The specification's three rows: (true, true, false, true), (true, true, false, false)
  and (false, _, _, _).
\<close>

theorem initTeam_group_fetch_selection_witness:
  "filter is_team_or_general_groups_fetch
     (issued (module_load 0)
        (initTeam example_env ((example_props ''beta'')\<lparr>license := Some ldap_license\<rparr>)
           team_beta (module_load 0)))
     = [GetAllGroupsAssociatedToTeam ''t2'' True] \<and>
   filter is_team_or_general_groups_fetch
     (issued (module_load 0)
        (initTeam example_env ((example_props ''alpha'')\<lparr>license := Some ldap_license\<rparr>)
           team_alpha (module_load 0)))
     = [GetGroups False 0 60] \<and>
   filter is_group_fetch
     (issued (module_load 0)
        (initTeam example_env ((example_props ''beta'')\<lparr>license := Some unlicensed\<rparr>)
           team_beta (module_load 0)))
     = []"
  using initTeam_group_fetch_selection
          [of "module_load 0" example_env
              "(example_props ''beta'')\<lparr>license := Some ldap_license\<rparr>" team_beta]
        initTeam_group_fetch_selection
          [of "module_load 0" example_env
              "(example_props ''alpha'')\<lparr>license := Some ldap_license\<rparr>" team_alpha]
        initTeam_group_fetch_selection
          [of "module_load 0" example_env
              "(example_props ''beta'')\<lparr>license := Some unlicensed\<rparr>" team_beta]
  by (simp add: example_defs method_defs observation_defs)

text \<open>
  C5, as amended. When the group-fetch gate passes, \<open>initTeam\<close> fetches the current
  user's own paginated group memberships exactly when the props hold a current user
  (page 0, 60 per page, with member counts); with no current user it issues no such
  fetch.
\<close>

theorem initTeam_user_groups_fetch:
  "group_fetch_gate p \<Longrightarrow>
   filter is_user_groups_fetch (issued w (initTeam e p t w)) =
     (case currentUser p of
        None \<Rightarrow> []
      | Some u \<Rightarrow> [GetGroupsByUserIdPaginated (user_id u) False 0 60 True])"
  by (auto simp: issued_initTeam initTeam_calls_def is_user_groups_fetch_def
        split: option.splits)

theorem initTeam_user_groups_fetch_witness:
  "group_fetch_gate ((example_props ''alpha'')\<lparr>license := Some ldap_license\<rparr>) \<and>
   filter is_user_groups_fetch
     (issued (module_load 0)
        (initTeam example_env ((example_props ''alpha'')\<lparr>license := Some ldap_license\<rparr>)
           team_alpha (module_load 0)))
     = [GetGroupsByUserIdPaginated ''u1'' False 0 60 True]"
proof -
  have gate: "group_fetch_gate ((example_props ''alpha'')\<lparr>license := Some ldap_license\<rparr>)"
    by (simp add: example_defs method_defs observation_defs)
  show ?thesis
    using gate initTeam_user_groups_fetch [OF gate, of "module_load 0" example_env team_alpha]
    by (simp add: example_defs method_defs observation_defs)
qed

text \<open>
  The claim as first stated fails when the props hold no current user (\<open>currentUser\<close>
  is optional): the gate passes and the fetch of the user's groups is not issued.
\<close>

theorem initTeam_no_user_no_user_groups_fetch:
  "group_fetch_gate
     ((example_props ''alpha'')\<lparr>license := Some ldap_license, currentUser := None\<rparr>) \<and>
   filter is_user_groups_fetch
     (issued (module_load 0)
        (initTeam example_env
           ((example_props ''alpha'')\<lparr>license := Some ldap_license, currentUser := None\<rparr>)
           team_alpha (module_load 0)))
     = []"
  by (simp add: example_defs method_defs observation_defs)

text \<open>
  C10. \<open>initTeam\<close> closes the right-hand sidebar, once, exactly when the team's id
  differs from the previous-team id of the props (an absent previous-team id differs from
  every id); for the same team as before no such call is issued.
\<close>

theorem initTeam_close_right_hand_side:
  "filter (\<lambda>x. x = EmitCloseRightHandSide) (issued w (initTeam e p t w)) =
     (if Some (team_id t) \<noteq> previousTeamId p then [EmitCloseRightHandSide] else [])"
  by (auto simp: issued_initTeam initTeam_calls_def split: option.splits)

theorem initTeam_close_right_hand_side_witness:
  "filter (\<lambda>x. x = EmitCloseRightHandSide)
     (issued (module_load 0)
        (initTeam example_env ((example_props ''alpha'')\<lparr>previousTeamId := Some ''t2''\<rparr>)
           team_alpha (module_load 0)))
     = [EmitCloseRightHandSide] \<and>
   filter (\<lambda>x. x = EmitCloseRightHandSide)
     (issued (module_load 0)
        (initTeam example_env ((example_props ''alpha'')\<lparr>previousTeamId := Some ''t1''\<rparr>)
           team_alpha (module_load 0)))
     = []"
  using initTeam_close_right_hand_side
          [of "module_load 0" example_env
              "(example_props ''alpha'')\<lparr>previousTeamId := Some ''t2''\<rparr>" team_alpha]
        initTeam_close_right_hand_side
          [of "module_load 0" example_env
              "(example_props ''alpha'')\<lparr>previousTeamId := Some ''t1''\<rparr>" team_alpha]
  by (simp add: example_defs method_defs observation_defs)

section \<open>A change of the route's slug\<close>

text \<open>
  C6, as amended. When the route's slug changes on a mounted controller, the update
  re-resolves the new slug against the teams list of the new props: a team found there
  becomes the current team. For whichever team is current after the update (found, or
  joined), its channel fetch has been issued, and before that fetch completes
  \<open>channelsReady\<close> is false only if the current user is a guest (the explicit reset in
  \<open>initTeam\<close>); for any other user it keeps the value it had for the previous team. When
  the fetch completes it is true.
\<close>

theorem route_change_channelsReady:
  assumes "state w = Some s" and "prevTeam s = match_params_team prevProps"
    and "match_params_team p \<noteq> match_params_team prevProps"
  shows "fst (update e prevProps p w) = None \<and>
         (\<forall>t. resolve (match_params_team p) (teamsList p) = Some t \<longrightarrow>
              currentTeam (snd (update e prevProps p w)) = Some t) \<and>
         (\<forall>t. currentTeam (snd (update e prevProps p w)) = Some t \<longrightarrow>
              channelsReady (snd (update e prevProps p w)) =
                (if guest e p then False else finishedFetchingChannels s) \<and>
              FetchMyChannelsAndMembersREST (team_id t) \<in>
                set (issued w (snd (update e prevProps p w))) \<and>
              channelsReady (fetchMyChannelsAndMembersREST_then (snd (update e prevProps p w))))"
  using assms
  by (auto simp: update_def getDerivedStateFromProps_def render_def componentDidUpdate_def
        joinTeam_def resolve_def currentTeam_def channelsReady_def guest_def
        fetchMyChannelsAndMembersREST_then_def
        trace_initTeam state_initTeam initTeam_calls_def issued_def error_route_def
        setState_def Let_def emit_def split: option.splits prod.splits if_splits sum.splits)

text \<open>A guest going from alpha, whose channels are loaded, to beta.\<close>

theorem route_change_channelsReady_witness:
  "state world_on_alpha \<noteq> None \<and>
   match_params_team (example_props ''beta'') \<noteq> match_params_team (example_props ''alpha'') \<and>
   channelsReady world_on_alpha \<and>
   currentTeam
     (snd (update example_env (example_props ''alpha'')
             ((example_props ''beta'')\<lparr>currentUser := Some user_guest\<rparr>) world_on_alpha))
     = Some team_beta \<and>
   \<not> channelsReady
     (snd (update example_env (example_props ''alpha'')
             ((example_props ''beta'')\<lparr>currentUser := Some user_guest\<rparr>) world_on_alpha)) \<and>
   channelsReady
     (fetchMyChannelsAndMembersREST_then
        (snd (update example_env (example_props ''alpha'')
                ((example_props ''beta'')\<lparr>currentUser := Some user_guest\<rparr>) world_on_alpha)))"
  using route_change_channelsReady
          [of world_on_alpha
              "\<lparr>team = Some team_alpha, finishedFetchingChannels = True,
                prevTeam = ''alpha'', state_teamsList = Some [team_alpha, team_beta]\<rparr>"
              "example_props ''alpha''"
              "(example_props ''beta'')\<lparr>currentUser := Some user_guest\<rparr>" example_env]
  by (simp add: example_defs method_defs observation_defs)

text \<open>
  The claim as first stated fails for a user who is not a guest: going from alpha, whose
  channels are loaded, to beta, the new team is current and its channel fetch has been
  issued and has not completed, and \<open>channelsReady\<close> is still true.
\<close>

theorem route_change_member_channelsReady_not_reset:
  "channelsReady world_on_alpha \<and>
   currentTeam
     (snd (update example_env (example_props ''alpha'') (example_props ''beta'') world_on_alpha))
     = Some team_beta \<and>
   FetchMyChannelsAndMembersREST ''t2'' \<in>
     set (issued world_on_alpha
            (snd (update example_env (example_props ''alpha'') (example_props ''beta'')
                    world_on_alpha))) \<and>
   channelsReady
     (snd (update example_env (example_props ''alpha'') (example_props ''beta'') world_on_alpha))"
  by (simp add: example_defs method_defs observation_defs)

section \<open>The wake-up timer\<close>

text \<open>
  What the code does with the last-tick timestamp. \<open>lastTime\<close> is written when the
  module is loaded and by the tick callback, and by nothing else: the constructor, which
  starts the timer with a period of 30 seconds, leaves it as it was. On every tick the
  callback issues one non-forced reconnect if and only if the current time exceeds the
  recorded last tick by more than 60 seconds, and whether or not it did, it records the
  current time as the last tick.
\<close>

lemma wakeUp_monitor:
  "lastTime (module_load t0) = t0 \<and>
   lastTime (constructor e p now w) = lastTime w \<and>
   (\<not> mfaRequired p \<longrightarrow> SetInterval 30000 \<in> set (issued w (constructor e p now w))) \<and>
   filter is_reconnect (issued w (wakeUpTick currentTime w)) =
     (if currentTime - lastTime w > 60000 then [Reconnect False] else []) \<and>
   lastTime (wakeUpTick currentTime w) = currentTime"
  using constructor_interval[of p w e now]
  by (auto simp: module_load_def lastTime_constructor wakeUpTick_def issued_def emit_def Let_def
        WAKEUP_THRESHOLD_def WAKEUP_CHECK_INTERVAL_def is_reconnect_def)

text \<open>
  Module loaded and controller constructed at time 0; a tick at 30 s issues no reconnect,
  the next tick, 61 s later, issues one.
\<close>

lemma wakeUp_monitor_ticks:
  "\<not> mfaRequired (example_props ''alpha'') \<and>
   SetInterval 30000 \<in>
     set (issued (module_load 0) (constructor example_env (example_props ''alpha'') 0 (module_load 0))) \<and>
   filter is_reconnect
     (issued (constructor example_env (example_props ''alpha'') 0 (module_load 0))
        (wakeUpTick 30000 (constructor example_env (example_props ''alpha'') 0 (module_load 0))))
     = [] \<and>
   filter is_reconnect
     (issued (wakeUpTick 30000 (constructor example_env (example_props ''alpha'') 0 (module_load 0)))
        (wakeUpTick 91000
           (wakeUpTick 30000 (constructor example_env (example_props ''alpha'') 0 (module_load 0)))))
     = [Reconnect False] \<and>
   lastTime
     (wakeUpTick 91000
        (wakeUpTick 30000 (constructor example_env (example_props ''alpha'') 0 (module_load 0))))
     = 91000"
  using wakeUp_monitor
          [of 0 example_env "example_props ''alpha''" 0 "module_load 0" 30000]
        wakeUp_monitor
          [of 0 example_env "example_props ''alpha''" 0
              "wakeUpTick 30000 (constructor example_env (example_props ''alpha'') 0 (module_load 0))"
              91000]
  by (simp add: example_defs method_defs observation_defs)

text \<open>
  C7. The monitor is to record the current time as the last tick when it starts, so
  that a tick reconnects only after the timer itself was delayed by more than 60
  seconds. The code misses the first half: the start of the monitor does not write
  \<open>lastTime\<close>. With the module loaded at time 0 and the controller constructed at
  100 s, the recorded last tick is still 0 after the start, and the first tick, which
  fires on schedule 30 s later, logs a wake-up and issues a reconnect although no tick
  was late.
\<close>

theorem wakeUp_start_keeps_lastTime:
  "lastTime (constructor example_env (example_props ''alpha'') 100000 (module_load 0)) \<noteq> 100000 \<and>
   lastTime (constructor example_env (example_props ''alpha'') 100000 (module_load 0)) = 0 \<and>
   issued (constructor example_env (example_props ''alpha'') 100000 (module_load 0))
     (wakeUpTick 130000
        (constructor example_env (example_props ''alpha'') 100000 (module_load 0)))
     = [ConsoleLog ''computer woke up - fetching latest'', Reconnect False] \<and>
   filter is_reconnect
     (issued (constructor example_env (example_props ''alpha'') 100000 (module_load 0))
        (wakeUpTick 130000
           (constructor example_env (example_props ''alpha'') 100000 (module_load 0))))
     = [Reconnect False]"
  by (simp add: example_defs method_defs observation_defs)

section \<open>Focus and blur\<close>

text \<open>
  C8. On every focus event the three effects are decided independently of one another:
  the window-active flag is set when a thread is selected; when there is a current
  channel it is marked read-on-focus and the flag is set; and the team's channels and
  memberships are fetched again if and only if more than 10 seconds have passed since the
  recorded blur time and there is a current team. The blur handler records the time of
  the blur.
\<close>

theorem handleFocus_effects:
  "isActive (handleFocus p now w) =
     (isActive w \<or> truthy (selectedThreadId p) \<or> truthy (currentChannelId p)) \<and>
   issued w (handleFocus p now w) =
     (case currentChannelId p of
        None \<Rightarrow> []
      | Some c \<Rightarrow> if c \<noteq> [] then [MarkChannelAsReadOnFocus c] else []) @
     (case currentTeamId p of
        None \<Rightarrow> []
      | Some tid \<Rightarrow>
          if now - blurTime w > 10000 \<and> tid \<noteq> []
          then [FetchMyChannelsAndMembersREST tid] else []) \<and>
   blurTime (handleBlur p t0 w) = t0 \<and>
   \<not> isActive (handleBlur p t0 w)"
  by (auto simp: handleFocus_def handleBlur_def truthy_def issued_def emit_def Let_def
        UNREAD_CHECK_TIME_MILLISECONDS_def split: option.splits)

text \<open>
  Blur at time 0 with alpha as the current team: a focus at 5 s fetches nothing, a focus
  at 15 s fetches the team's channels and memberships. With a thread selected and a
  current channel as well, all three effects take place at once.
\<close>

theorem handleFocus_effects_witness:
  "issued (handleBlur ((example_props ''alpha'')\<lparr>currentTeamId := Some ''t1''\<rparr>) 0 world_on_alpha)
     (handleFocus ((example_props ''alpha'')\<lparr>currentTeamId := Some ''t1''\<rparr>) 5000
        (handleBlur ((example_props ''alpha'')\<lparr>currentTeamId := Some ''t1''\<rparr>) 0 world_on_alpha))
     = [] \<and>
   issued (handleBlur ((example_props ''alpha'')\<lparr>currentTeamId := Some ''t1''\<rparr>) 0 world_on_alpha)
     (handleFocus ((example_props ''alpha'')\<lparr>currentTeamId := Some ''t1''\<rparr>) 15000
        (handleBlur ((example_props ''alpha'')\<lparr>currentTeamId := Some ''t1''\<rparr>) 0 world_on_alpha))
     = [FetchMyChannelsAndMembersREST ''t1''] \<and>
   issued (handleBlur (example_props ''alpha'') 0 world_on_alpha)
     (handleFocus
        ((example_props ''alpha'')
           \<lparr>currentTeamId := Some ''t1'', currentChannelId := Some ''c1'',
            selectedThreadId := Some ''p1''\<rparr>) 15000
        (handleBlur (example_props ''alpha'') 0 world_on_alpha))
     = [MarkChannelAsReadOnFocus ''c1'', FetchMyChannelsAndMembersREST ''t1''] \<and>
   isActive
     (handleFocus
        ((example_props ''alpha'')
           \<lparr>currentTeamId := Some ''t1'', currentChannelId := Some ''c1'',
            selectedThreadId := Some ''p1''\<rparr>) 15000
        (handleBlur (example_props ''alpha'') 0 world_on_alpha))"
  using handleFocus_effects
          [of "(example_props ''alpha'')\<lparr>currentTeamId := Some ''t1''\<rparr>" 5000
              "handleBlur ((example_props ''alpha'')\<lparr>currentTeamId := Some ''t1''\<rparr>) 0 world_on_alpha"
              0]
        handleFocus_effects
          [of "(example_props ''alpha'')\<lparr>currentTeamId := Some ''t1''\<rparr>" 15000
              "handleBlur ((example_props ''alpha'')\<lparr>currentTeamId := Some ''t1''\<rparr>) 0 world_on_alpha"
              0]
  by (simp add: example_defs method_defs observation_defs)

section \<open>Mounting when MFA is required\<close>

text \<open>
  C9. When MFA is required the constructor issues the redirect to the MFA set-up route
  and nothing else, and \<open>this.state\<close> stays unassigned; the mount then ends in
  \<open>getDerivedStateFromProps\<close>, which reads the state, and \<open>componentDidMount\<close> is not
  reached. Over the whole mount the redirect is the only call: no interval timer is
  started, no focus, blur or keydown listener is registered, and the module's timer
  variable is as it was.
\<close>

theorem mfa_required_acquires_nothing:
  "mfaRequired p \<Longrightarrow>
   issued w (constructor e p now w) = [HistoryPush mfa_route] \<and>
   state (constructor e p now w) = None \<and>
   fst (mount e p now w) = Some TypeError \<and>
   issued w (snd (mount e p now w)) = [HistoryPush mfa_route] \<and>
   filter is_timer_or_listener (issued w (snd (mount e p now w))) = [] \<and>
   wakeUpInterval (snd (mount e p now w)) = wakeUpInterval w"
  by (simp add: mount_def constructor_def getDerivedStateFromProps_def issued_def emit_def
        Let_def is_timer_or_listener_def)

theorem mfa_required_acquires_nothing_witness:
  "mfaRequired ((example_props ''alpha'')\<lparr>mfaRequired := True\<rparr>) \<and>
   issued (module_load 0)
     (snd (mount example_env ((example_props ''alpha'')\<lparr>mfaRequired := True\<rparr>) 0 (module_load 0)))
     = [HistoryPush ''/mfa/setup''] \<and>
   \<not> wakeUpInterval
     (snd (mount example_env ((example_props ''alpha'')\<lparr>mfaRequired := True\<rparr>) 0 (module_load 0)))"
  using mfa_required_acquires_nothing
          [of "(example_props ''alpha'')\<lparr>mfaRequired := True\<rparr>" "module_load 0" example_env 0]
  by (simp add: example_defs method_defs observation_defs)

end
